theory Spec2Isabelle
  imports Main "HOL-Library.Word" "HOL-Library.Sublist"
begin

section \<open>go-selfupdate: the update decision-and-application protocol\<close>

text \<open>
  A shallow embedding of \<^verbatim>\<open>selfupdate.go\<close> and of the mock requester. Every method
  of \<^verbatim>\<open>*Updater\<close> takes the environment, the world and the updater, and returns its
  Go result together with the world and the updater as the call leaves them.
\<close>

subsection \<open>Errors\<close>

text \<open>
  The two package-level sentinels, and every other error value (made by
  \<^verbatim>\<open>fmt.Errorf\<close> or by a library) with its message.
\<close>

datatype error = ErrHashMismatch | ErrInvalidHashLength | Err string

fun Error :: "error \<Rightarrow> string" where
  "Error ErrHashMismatch = ''new file hash mismatch after patch''"
| "Error ErrInvalidHashLength = ''Invalid hash length''"
| "Error (Err msg) = msg"

subsection \<open>Data\<close>

type_synonym ReadCloser = string

text \<open>The anonymous struct of the field \<^verbatim>\<open>Updater.Info\<close>.\<close>

record manifest_info =
  Version :: string
  Sha256 :: "8 word list"

text \<open>
  \<^verbatim>\<open>Requester\<close> and \<^verbatim>\<open>Logger\<close> hold interface values: \<open>None\<close> is the nil
  interface, \<open>Some a\<close> a pointer to the object at address \<open>a\<close>.
\<close>

record Updater =
  CurrentVersion :: string
  ApiURL :: string
  CmdName :: string
  BinURL :: string
  DiffURL :: string
  Dir :: string
  Requester :: "nat option"
  Info :: manifest_info
  Logger :: "nat option"

record mockRequester =
  currentIndex :: nat
  fetches :: "(string \<Rightarrow> ReadCloser option \<times> error option) list"

datatype requester_obj = HTTPRequester | MockRequester mockRequester

text \<open>The part of \<^verbatim>\<open>update.Update\<close> (go-update) that \<^verbatim>\<open>Update\<close> configures.\<close>

datatype patchtype = PATCHTYPE_BSDIFF | PATCHTYPE_NONE

record update_Update =
  PatchType :: patchtype
  Checksum :: "8 word list"

definition update_New :: update_Update where
  "update_New = \<lparr>PatchType = PATCHTYPE_NONE, Checksum = []\<rparr>"

definition ApplyPatch :: "update_Update \<Rightarrow> patchtype \<Rightarrow> update_Update" where
  "ApplyPatch up t = up\<lparr>PatchType := t\<rparr>"

definition VerifyChecksum :: "update_Update \<Rightarrow> 8 word list \<Rightarrow> update_Update" where
  "VerifyChecksum up c = up\<lparr>Checksum := c\<rparr>"

subsection \<open>Environment and world\<close>

text \<open>
  What the code consumes from outside the package and never changes: the build-time
  platform string, the libraries (\<^verbatim>\<open>osext\<close> with \<^verbatim>\<open>filepath\<close>,
  \<^verbatim>\<open>encoding/json\<close>, \<^verbatim>\<open>strconv.Quote\<close> behind the verb \<^verbatim>\<open>%q\<close>), and the behaviour
  of the outside: the network (a function of the requests made so far), go-update's
  \<^verbatim>\<open>FromUrl\<close> (a function of the calls made so far, the last one being the call
  answered), the file system's readiness to take a write, the clock and the random source.
\<close>

record env =
  plat :: string
  exec_relative :: "string \<Rightarrow> string"
  strconv_Quote :: "string \<Rightarrow> string"
  json_Decode :: "ReadCloser \<Rightarrow> manifest_info \<Rightarrow> error option \<times> manifest_info"
  http_Get :: "string list \<Rightarrow> string \<Rightarrow> ReadCloser option \<times> error option"
  apply_update :: "(update_Update \<times> string) list \<Rightarrow> error option \<times> error option"
  write_ok :: "string \<Rightarrow> bool"
  clock :: "nat \<Rightarrow> int"
  entropy :: "nat \<Rightarrow> nat"

text \<open>
  What the code changes: the schedule files (path to persisted instant), the directories
  made, the store of requester objects, the requests sent by the default requester, the
  calls of \<^verbatim>\<open>FromUrl\<close>, the streams closed, the lines printed, and how many times the
  clock and the random source have been read.
\<close>

record world =
  files :: "string \<Rightarrow> int option"
  dirs :: "string list"
  heap :: "nat \<Rightarrow> requester_obj"
  next_free :: nat
  http_log :: "string list"
  update_log :: "(update_Update \<times> string) list"
  closed :: "ReadCloser list"
  printed :: "(nat \<times> string) list"
  ticks :: nat
  draws :: nat

datatype 'a outcome = Returns 'a | Panics

subsection \<open>Constants\<close>

definition upcktimePath :: string where
  "upcktimePath = ''cktime''"

definition sha256_Size :: nat where
  "sha256_Size = 32"

text \<open>\<^verbatim>\<open>time.Duration\<close> counts nanoseconds; no value below reaches \<open>2 ^ 63\<close>.\<close>

definition Hour :: int where
  "Hour = 3600 * 1000000000"

subsection \<open>Library calls\<close>

definition time_Now :: "env \<Rightarrow> world \<Rightarrow> int \<times> world" where
  "time_Now e w = (clock e (ticks w), w\<lparr>ticks := ticks w + 1\<rparr>)"

definition os_MkdirAll :: "world \<Rightarrow> string \<Rightarrow> world" where
  "os_MkdirAll w path = w\<lparr>dirs := dirs w @ [path]\<rparr>"

definition Println :: "world \<Rightarrow> nat \<Rightarrow> string \<Rightarrow> world" where
  "Println w l s = w\<lparr>printed := printed w @ [(l, s)]\<rparr>"

definition Close :: "world \<Rightarrow> ReadCloser \<Rightarrow> world" where
  "Close w r = w\<lparr>closed := closed w @ [r]\<rparr>"

text \<open>
  \<^verbatim>\<open>up.FromUrl(url)\<close> of go-update: fetches the URL itself, applies the stream in the
  mode of \<open>up\<close>, checks the checksum, and answers \<^verbatim>\<open>(err, errRecover)\<close>.
\<close>

definition FromUrl ::
  "env \<Rightarrow> world \<Rightarrow> update_Update \<Rightarrow> string \<Rightarrow> (error option \<times> error option) \<times> world" where
  "FromUrl e w up url =
     (let log = update_log w @ [(up, url)]
      in (apply_update e log, w\<lparr>update_log := log\<rparr>))"

text \<open>The operand of \<^verbatim>\<open>%q\<close>: an error prints its quoted message, nil prints as fmt does.\<close>

definition fmt_q :: "env \<Rightarrow> error option \<Rightarrow> string" where
  "fmt_q e x = (case x of None \<Rightarrow> ''%!q(<nil>)'' | Some err \<Rightarrow> strconv_Quote e (Error err))"

fun decimal :: "nat \<Rightarrow> string" where
  "decimal n =
     (if n < 10 then [char_of (48 + n)]
      else decimal (n div 10) @ [char_of (48 + n mod 10)])"

subsection \<open>Schedule helpers\<close>

text \<open>
  Modelled from the spec: \<^verbatim>\<open>readTime\<close> is not among the sources. It reads the persisted
  schedule timestamp; a file that does not exist gives no instant.
\<close>

definition readTime :: "world \<Rightarrow> string \<Rightarrow> int option" where
  "readTime w path = files w path"

text \<open>\<^verbatim>\<open>t.After(u)\<close>; the instant of a missing file is after nothing.\<close>

definition After :: "int option \<Rightarrow> int \<Rightarrow> bool" where
  "After t u = (case t of None \<Rightarrow> False | Some x \<Rightarrow> u < x)"

text \<open>
  Modelled from the spec: \<^verbatim>\<open>writeTime\<close> is not among the sources. It persists the
  instant and answers true; a failed write answers false.
\<close>

definition writeTime :: "env \<Rightarrow> world \<Rightarrow> string \<Rightarrow> int \<Rightarrow> bool \<times> world" where
  "writeTime e w path t =
     (if write_ok e path then (True, w\<lparr>files := (files w)(path \<mapsto> t)\<rparr>)
      else (False, w))"

text \<open>
  Modelled from the spec: \<^verbatim>\<open>randDuration\<close> is not among the sources. It draws a
  duration from \<open>[0, n)\<close>; its one caller passes 24 hours.
\<close>

definition randDuration :: "env \<Rightarrow> world \<Rightarrow> int \<Rightarrow> int \<times> world" where
  "randDuration e w n = (int (entropy e (draws w)) mod n, w\<lparr>draws := draws w + 1\<rparr>)"

subsection \<open>The mock requester\<close>

definition handleRequest ::
  "mockRequester \<Rightarrow> (string \<Rightarrow> ReadCloser option \<times> error option) \<Rightarrow> mockRequester" where
  "handleRequest mr requestHandler = mr\<lparr>fetches := fetches mr @ [requestHandler]\<rparr>"

definition mockRequester_Fetch ::
  "mockRequester \<Rightarrow> string \<Rightarrow> (ReadCloser option \<times> error option) \<times> mockRequester" where
  "mockRequester_Fetch mr url =
     (if length (fetches mr) \<le> currentIndex mr
      then ((None, Some (Err (''No for currentIndex '' @ decimal (currentIndex mr) @ '' to mock''))), mr)
      else (let current = fetches mr ! currentIndex mr
            in (current url, mr\<lparr>currentIndex := currentIndex mr + 1\<rparr>)))"

text \<open>
  Modelled from the spec: \<^verbatim>\<open>HTTPRequester\<close> is not among the sources. Its
  \<^verbatim>\<open>Fetch\<close> performs an HTTP GET and gives a byte stream or an error.
\<close>

definition HTTPRequester_Fetch ::
  "env \<Rightarrow> world \<Rightarrow> string \<Rightarrow> (ReadCloser option \<times> error option) \<times> world" where
  "HTTPRequester_Fetch e w url =
     (http_Get e (http_log w) url, w\<lparr>http_log := http_log w @ [url]\<rparr>)"

text \<open>The interface call \<^verbatim>\<open>u.Requester.Fetch(url)\<close> on the object at address \<open>a\<close>.\<close>

definition Requester_Fetch ::
  "env \<Rightarrow> world \<Rightarrow> nat \<Rightarrow> string \<Rightarrow> (ReadCloser option \<times> error option) \<times> world" where
  "Requester_Fetch e w a url =
     (case heap w a of
        HTTPRequester \<Rightarrow> HTTPRequester_Fetch e w url
      | MockRequester mr \<Rightarrow>
          (let (res, mr') = mockRequester_Fetch mr url
           in (res, w\<lparr>heap := (heap w)(a := MockRequester mr')\<rparr>)))"

subsection \<open>The updater\<close>

definition getExecRelativeDir :: "env \<Rightarrow> string \<Rightarrow> string" where
  "getExecRelativeDir e dir = exec_relative e dir"

definition fetch ::
  "env \<Rightarrow> world \<Rightarrow> Updater \<Rightarrow> string \<Rightarrow> (error + ReadCloser) \<times> world \<times> Updater" where
  "fetch e w u url =
     (let (a, w1, u1) =
            (case Requester u of
               None \<Rightarrow> (next_free w,
                         w\<lparr>heap := (heap w)(next_free w := HTTPRequester),
                           next_free := next_free w + 1\<rparr>,
                         u\<lparr>Requester := Some (next_free w)\<rparr>)
             | Some a \<Rightarrow> (a, w, u));
          ((readCloser, err), w2) = Requester_Fetch e w1 a url
      in case err of
           Some x \<Rightarrow> (Inl x, w2, u1)
         | None \<Rightarrow>
             (case readCloser of
                None \<Rightarrow> (Inl (Err ''Fetch was expected to return non-nil ReadCloser''), w2, u1)
              | Some r \<Rightarrow> (Inr r, w2, u1)))"

definition fetchInfo :: "env \<Rightarrow> world \<Rightarrow> Updater \<Rightarrow> error option \<times> world \<times> Updater" where
  "fetchInfo e w u =
     (let (res, w1, u1) = fetch e w u (ApiURL u @ CmdName u @ ''/'' @ plat e @ ''.json'')
      in case res of
           Inl err \<Rightarrow> (Some err, w1, u1)
         | Inr r \<Rightarrow>
             (let (err, info) = json_Decode e r (Info u1);
                  u2 = u1\<lparr>Info := info\<rparr>;
                  w2 = Close w1 r
              in if err \<noteq> None then (err, w2, u2)
                 else if length (Sha256 (Info u2)) \<noteq> sha256_Size
                 then (Some ErrInvalidHashLength, w2, u2)
                 else (None, w2, u2)))"

definition UpdateAvailable ::
  "env \<Rightarrow> world \<Rightarrow> Updater \<Rightarrow> (bool \<times> error option) \<times> world \<times> Updater" where
  "UpdateAvailable e w u =
     (let (err, w1, u1) = fetchInfo e w u
      in if err \<noteq> None then ((False, err), w1, u1)
         else if Version (Info u1) = CurrentVersion u1 then ((False, None), w1, u1)
         else ((True, None), w1, u1))"

definition patchURL :: "env \<Rightarrow> Updater \<Rightarrow> string" where
  "patchURL e u =
     DiffURL u @ CmdName u @ ''/'' @ CurrentVersion u @ ''/'' @ Version (Info u) @ ''/'' @ plat e"

definition binURL :: "env \<Rightarrow> Updater \<Rightarrow> string" where
  "binURL e u = BinURL u @ CmdName u @ ''/'' @ Version (Info u) @ ''/'' @ plat e @ ''.gz''"

definition Update :: "env \<Rightarrow> world \<Rightarrow> Updater \<Rightarrow> error option \<times> world \<times> Updater" where
  "Update e w u =
     (let ((updateAvailable, err0), w1, u1) = UpdateAvailable e w u
      in if updateAvailable = False then (err0, w1, u1)
         else
           (let up = VerifyChecksum (ApplyPatch update_New PATCHTYPE_BSDIFF) (Sha256 (Info u1));
                ((err, _), w2) = FromUrl e w1 up (patchURL e u1)
            in if err = None then (None, w2, u1)
               else
                 (let up' = ApplyPatch up PATCHTYPE_NONE;
                      ((err', errRecover), w3) = FromUrl e w2 up' (binURL e u1)
                  in if errRecover \<noteq> None
                     then (Some (Err (''update and recovery errors: '' @ fmt_q e err' @ '' ''
                                        @ fmt_q e errRecover)), w3, u1)
                     else if err' \<noteq> None then (err', w3, u1)
                     else (None, w3, u1))))"

definition wantUpdate :: "env \<Rightarrow> world \<Rightarrow> Updater \<Rightarrow> bool \<times> world" where
  "wantUpdate e w u =
     (let path = getExecRelativeDir e (Dir u @ upcktimePath)
      in if CurrentVersion u = ''dev'' then (False, w)
         else
           (let t = readTime w path;
                (now, w1) = time_Now e w
            in if After t now then (False, w1)
               else
                 (let (r, w2) = randDuration e w1 (24 * Hour);
                      wait = 24 * Hour + r;
                      (now', w3) = time_Now e w2
                  in writeTime e w3 path (now' + wait))))"

definition BackgroundRun ::
  "env \<Rightarrow> world \<Rightarrow> Updater \<Rightarrow> error option outcome \<times> world \<times> Updater" where
  "BackgroundRun e w u =
     (let w0 = os_MkdirAll w (getExecRelativeDir e (Dir u));
          (want, w1) = wantUpdate e w0 u
      in if want
         then (case Logger u of
                 None \<Rightarrow> (Panics, w1, u)
               | Some l \<Rightarrow>
                   (let w2 = Println w1 l ''Update Wanted'';
                        (err, w3, u3) = Update e w2 u
                    in if err \<noteq> None then (Returns err, w3, u3) else (Returns None, w3, u3)))
         else (Returns None, w1, u))"

subsection \<open>The schedule path and the next check\<close>

text \<open>
  The path that \<^verbatim>\<open>wantUpdate\<close> computes, and the instant it hands to
  \<^verbatim>\<open>writeTime\<close>: the second reading of the clock plus 24 hours plus the duration
  drawn.
\<close>

definition schedule_path :: "env \<Rightarrow> Updater \<Rightarrow> string" where
  "schedule_path e u = getExecRelativeDir e (Dir u @ upcktimePath)"

definition next_check :: "env \<Rightarrow> world \<Rightarrow> int" where
  "next_check e w = clock e (ticks w + 1) + 24 * Hour + int (entropy e (draws w)) mod (24 * Hour)"

subsection \<open>Scenarios\<close>

text \<open>
  A concrete environment, world and updater on which the theorems below are evaluated:
  version 1 runs, the network serves the manifest of version 2, every write succeeds.
  The variants change one capability each.
\<close>

definition env0 :: env where
  "env0 = \<lparr>plat = ''linux-amd64'',
            exec_relative = (\<lambda>d. ''/opt/app/'' @ d),
            strconv_Quote = (\<lambda>s. [CHR 0x22] @ s @ [CHR 0x22]),
            json_Decode = (\<lambda>r i.
               if r = ''manifest 2'' then (None, \<lparr>Version = ''2'', Sha256 = replicate 32 7\<rparr>)
               else if r = ''manifest 1'' then (None, \<lparr>Version = ''1'', Sha256 = replicate 32 7\<rparr>)
               else if r = ''short hash'' then (None, \<lparr>Version = ''2'', Sha256 = replicate 31 7\<rparr>)
               else (Some (Err ''unexpected end of JSON input''), i)),
            http_Get = (\<lambda>log url. (Some ''manifest 2'', None)),
            apply_update = (\<lambda>log. (None, None)),
            write_ok = (\<lambda>p. True),
            clock = (\<lambda>n. 1000 + int n),
            entropy = (\<lambda>n. 12345)\<rparr>"

definition world0 :: world where
  "world0 = \<lparr>files = (\<lambda>p. None), dirs = [], heap = (\<lambda>a. HTTPRequester), next_free = 0,
              http_log = [], update_log = [], closed = [], printed = [], ticks = 0, draws = 0\<rparr>"

definition updater0 :: Updater where
  "updater0 = \<lparr>CurrentVersion = ''1'', ApiURL = ''http://api.example.com/'', CmdName = ''myapp'',
                BinURL = ''http://bin.example.com/'', DiffURL = ''http://diff.example.com/'',
                Dir = ''update/'', Requester = None,
                Info = \<lparr>Version = [], Sha256 = []\<rparr>, Logger = None\<rparr>"

definition world_mock :: "ReadCloser \<Rightarrow> world" where
  "world_mock body =
     world0\<lparr>heap := (\<lambda>a. MockRequester \<lparr>currentIndex = 0,
                                          fetches = [\<lambda>url. (Some body, None)]\<rparr>),
            next_free := 1\<rparr>"

definition updater_mock :: Updater where
  "updater_mock = updater0\<lparr>Requester := Some 0\<rparr>"

definition env_patch_fails :: env where
  "env_patch_fails =
     env0\<lparr>apply_update := (\<lambda>log.
        case PatchType (fst (last log)) of
          PATCHTYPE_BSDIFF \<Rightarrow> (Some ErrHashMismatch, None)
        | PATCHTYPE_NONE \<Rightarrow> (None, None))\<rparr>"

definition env_both_fail :: env where
  "env_both_fail =
     env0\<lparr>apply_update := (\<lambda>log.
        case PatchType (fst (last log)) of
          PATCHTYPE_BSDIFF \<Rightarrow> (Some (Err ''diff server down''), None)
        | PATCHTYPE_NONE \<Rightarrow> (Some (Err ''bin server down''), None))\<rparr>"

definition env_recovery_fails :: env where
  "env_recovery_fails =
     env0\<lparr>apply_update := (\<lambda>log.
        case PatchType (fst (last log)) of
          PATCHTYPE_BSDIFF \<Rightarrow> (Some (Err ''diff server down''), None)
        | PATCHTYPE_NONE \<Rightarrow> (Some (Err ''bin server down''), Some (Err ''rollback failed'')))\<rparr>"

definition env_read_only :: env where
  "env_read_only = env0\<lparr>write_ok := (\<lambda>p. False)\<rparr>"

definition world_scheduled :: world where
  "world_scheduled = world0\<lparr>files := (\<lambda>p. if p = ''/opt/app/update/cktime'' then Some 5000 else None)\<rparr>"

section \<open>Properties\<close>

subsection \<open>What a fetch leaves alone\<close>

lemma Requester_Fetch_frame:
  assumes "Requester_Fetch e w a url = (res, w')"
  shows "files w' = files w" "dirs w' = dirs w" "update_log w' = update_log w"
    "closed w' = closed w" "printed w' = printed w" "ticks w' = ticks w" "draws w' = draws w"
    "next_free w' = next_free w"
  using assms
  by (auto simp: Requester_Fetch_def HTTPRequester_Fetch_def Let_def
      split: requester_obj.splits prod.splits)

lemma fetch_Updater:
  assumes "fetch e w u url = (res, w', u')"
  shows "u' = u\<lparr>Requester := Some (case Requester u of None \<Rightarrow> next_free w | Some a \<Rightarrow> a)\<rparr>"
  using assms
  by (auto simp: fetch_def Let_def split: option.splits prod.splits)

lemma fetch_frame:
  assumes "fetch e w u url = (res, w', u')"
  shows "files w' = files w" "dirs w' = dirs w" "update_log w' = update_log w"
    "closed w' = closed w" "printed w' = printed w" "ticks w' = ticks w" "draws w' = draws w"
  using assms
  by (auto simp: fetch_def Let_def dest: Requester_Fetch_frame split: option.splits prod.splits)

lemma fetchInfo_Updater:
  assumes "fetchInfo e w u = (err, w', u')"
  shows "CurrentVersion u' = CurrentVersion u" "ApiURL u' = ApiURL u" "CmdName u' = CmdName u"
    "BinURL u' = BinURL u" "DiffURL u' = DiffURL u" "Dir u' = Dir u" "Logger u' = Logger u"
    "Requester u' = Some (case Requester u of None \<Rightarrow> next_free w | Some a \<Rightarrow> a)"
  using assms
  by (auto simp: fetchInfo_def Let_def split: prod.splits sum.splits if_splits
      dest!: fetch_Updater)

lemma fetchInfo_frame:
  assumes "fetchInfo e w u = (err, w', u')"
  shows "files w' = files w" "dirs w' = dirs w" "update_log w' = update_log w"
    "printed w' = printed w" "ticks w' = ticks w" "draws w' = draws w"
  using assms
  by (auto simp: fetchInfo_def Let_def Close_def split: prod.splits sum.splits if_splits dest: fetch_frame)

lemma fetchInfo_Info:
  assumes "fetchInfo e w u = (err, w', u')"
  shows "Info u' =
           (case fst (fetch e w u (ApiURL u @ CmdName u @ ''/'' @ plat e @ ''.json'')) of
              Inl x \<Rightarrow> Info u
            | Inr r \<Rightarrow> snd (json_Decode e r (Info u)))"
  using assms
  by (auto simp: fetchInfo_def Let_def split: prod.splits sum.splits if_splits
      dest!: fetch_Updater)

lemma fetch_eq:
  "fetch e w u url =
     (let a = (case Requester u of None \<Rightarrow> next_free w | Some a \<Rightarrow> a);
          w0 = (case Requester u of
                  None \<Rightarrow> w\<lparr>heap := (heap w)(next_free w := HTTPRequester),
                            next_free := next_free w + 1\<rparr>
                | Some a \<Rightarrow> w);
          q = Requester_Fetch e w0 a url;
          u1 = u\<lparr>Requester := Some a\<rparr>
      in case snd (fst q) of
           Some x \<Rightarrow> (Inl x, snd q, u1)
         | None \<Rightarrow>
             (case fst (fst q) of
                None \<Rightarrow> (Inl (Err ''Fetch was expected to return non-nil ReadCloser''), snd q, u1)
              | Some r \<Rightarrow> (Inr r, snd q, u1)))"
  by (simp add: fetch_def Let_def split: option.splits prod.splits)

lemma Requester_Fetch_heap:
  assumes "Requester_Fetch e w a url = (res, w')"
  shows "next_free w' = next_free w" "heap w' = (heap w)(a := heap w' a)"
    "heap w a = HTTPRequester \<Longrightarrow> heap w' = heap w"
  using assms
  by (auto simp: Requester_Fetch_def HTTPRequester_Fetch_def Let_def
      split: requester_obj.splits prod.splits)

lemma fetch_heap:
  assumes "fetch e w u url = (res, w', u')"
  shows "(case Requester u of
            None \<Rightarrow> heap w' = (heap w)(next_free w := HTTPRequester)
                      \<and> next_free w' = next_free w + 1
          | Some a \<Rightarrow> heap w' = (heap w)(a := heap w' a) \<and> next_free w' = next_free w)"
proof (cases "Requester u")
  case None
  let ?w0 = "w\<lparr>heap := (heap w)(next_free w := HTTPRequester), next_free := next_free w + 1\<rparr>"
  obtain q w2 where q: "Requester_Fetch e ?w0 (next_free w) url = (q, w2)"
    by (cases "Requester_Fetch e ?w0 (next_free w) url")
  have "w' = w2"
    using assms None q by (simp add: fetch_eq Let_def split: option.splits)
  moreover have "heap w2 = heap ?w0" "next_free w2 = next_free ?w0"
    using Requester_Fetch_heap(3) [OF q] Requester_Fetch_heap(1) [OF q] by simp_all
  ultimately show ?thesis
    using None by simp
next
  case (Some a)
  obtain q w2 where q: "Requester_Fetch e w a url = (q, w2)"
    by (cases "Requester_Fetch e w a url")
  have "w' = w2"
    using assms Some q by (simp add: fetch_eq Let_def split: option.splits)
  then show ?thesis
    using Some Requester_Fetch_heap(1,2) [OF q] by simp
qed

lemma fetchInfo_heap:
  assumes "fetchInfo e w u = (err, w', u')"
  shows "(case Requester u of
            None \<Rightarrow> heap w' = (heap w)(next_free w := HTTPRequester)
                      \<and> next_free w' = next_free w + 1
          | Some a \<Rightarrow> heap w' = (heap w)(a := heap w' a) \<and> next_free w' = next_free w)"
proof -
  obtain res w1 u1 where f: "fetch e w u (ApiURL u @ CmdName u @ ''/'' @ plat e @ ''.json'') = (res, w1, u1)"
    by (cases "fetch e w u (ApiURL u @ CmdName u @ ''/'' @ plat e @ ''.json'')")
  have "heap w' = heap w1 \<and> next_free w' = next_free w1"
    using assms f by (auto simp: fetchInfo_def Let_def Close_def split: sum.splits prod.splits if_splits)
  then show ?thesis
    using fetch_heap [OF f] by (simp split: option.splits)
qed

lemma fetchInfo_eq:
  "fst (fetchInfo e w u) =
     (case fst (fetch e w u (ApiURL u @ CmdName u @ ''/'' @ plat e @ ''.json'')) of
        Inl x \<Rightarrow> Some x
      | Inr r \<Rightarrow>
          (case json_Decode e r (Info u) of
             (Some x, info) \<Rightarrow> Some x
           | (None, info) \<Rightarrow>
               if length (Sha256 info) \<noteq> 32 then Some ErrInvalidHashLength else None))"
proof -
  obtain res w1 u1 where f: "fetch e w u (ApiURL u @ CmdName u @ ''/'' @ plat e @ ''.json'') = (res, w1, u1)"
    by (cases "fetch e w u (ApiURL u @ CmdName u @ ''/'' @ plat e @ ''.json'')")
  have i: "Info u1 = Info u"
    using fetch_Updater [OF f] by simp
  show ?thesis
    using f i by (auto simp: fetchInfo_def Let_def sha256_Size_def split: sum.splits prod.splits option.splits)
qed

lemma UpdateAvailable_snd: "snd (UpdateAvailable e w u) = snd (fetchInfo e w u)"
  by (simp add: UpdateAvailable_def split: prod.splits)

lemma UpdateAvailable_frame:
  assumes "UpdateAvailable e w u = (res, w1, u1)"
  shows "update_log w1 = update_log w" "DiffURL u1 = DiffURL u" "BinURL u1 = BinURL u"
    "CmdName u1 = CmdName u" "CurrentVersion u1 = CurrentVersion u"
proof -
  have "snd (fetchInfo e w u) = (w1, u1)"
    using assms UpdateAvailable_snd [of e w u] by simp
  then obtain err where f: "fetchInfo e w u = (err, w1, u1)"
    by (cases "fetchInfo e w u") simp
  show "update_log w1 = update_log w" using f by (rule fetchInfo_frame)
  show "DiffURL u1 = DiffURL u" using f by (rule fetchInfo_Updater)
  show "BinURL u1 = BinURL u" using f by (rule fetchInfo_Updater)
  show "CmdName u1 = CmdName u" using f by (rule fetchInfo_Updater)
  show "CurrentVersion u1 = CurrentVersion u" using f by (rule fetchInfo_Updater)
qed

lemma FromUrl_eq:
  "FromUrl e w up url
     = (apply_update e (update_log w @ [(up, url)]), w\<lparr>update_log := update_log w @ [(up, url)]\<rparr>)"
  by (simp add: FromUrl_def Let_def)

lemma Update_available:
  assumes "UpdateAvailable e w u = ((True, None), w1, u1)"
  shows "Update e w u =
     (let up = \<lparr>PatchType = PATCHTYPE_BSDIFF, Checksum = Sha256 (Info u1)\<rparr>;
          up' = \<lparr>PatchType = PATCHTYPE_NONE, Checksum = Sha256 (Info u1)\<rparr>;
          p = FromUrl e w1 up (patchURL e u1);
          b = FromUrl e (snd p) up' (binURL e u1)
      in if fst (fst p) = None then (None, snd p, u1)
         else if snd (fst b) \<noteq> None
         then (Some (Err (''update and recovery errors: '' @ fmt_q e (fst (fst b)) @ '' ''
                            @ fmt_q e (snd (fst b)))), snd b, u1)
         else (fst (fst b), snd b, u1))"
  using assms
  by (simp add: Update_def Let_def update_New_def ApplyPatch_def VerifyChecksum_def
      split: prod.splits)

lemma wantUpdate_eq:
  "wantUpdate e w u =
     (if CurrentVersion u = ''dev'' then (False, w)
      else if After (readTime w (schedule_path e u)) (clock e (ticks w))
      then (False, w\<lparr>ticks := ticks w + 1\<rparr>)
      else if write_ok e (schedule_path e u)
      then (True, w\<lparr>files := (files w)(schedule_path e u \<mapsto> next_check e w),
                     ticks := ticks w + 2, draws := draws w + 1\<rparr>)
      else (False, w\<lparr>ticks := ticks w + 2, draws := draws w + 1\<rparr>))"
  by (simp add: wantUpdate_def schedule_path_def next_check_def Let_def time_Now_def
      randDuration_def writeTime_def add.assoc)

lemma next_check_bounds:
  "clock e (ticks w + 1) + 24 * Hour \<le> next_check e w"
  "next_check e w < clock e (ticks w + 1) + 48 * Hour"
  by (simp_all add: next_check_def Hour_def)

subsection \<open>Evaluation of the scenarios\<close>

lemmas scenario_defs = env0_def world0_def updater0_def world_mock_def updater_mock_def
  env_patch_fails_def env_both_fail_def env_read_only_def world_scheduled_def

lemmas fetch_defs = fetch_def Requester_Fetch_def mockRequester_Fetch_def
  HTTPRequester_Fetch_def fetchInfo_def Close_def UpdateAvailable_def sha256_Size_def Let_def

lemmas schedule_defs = wantUpdate_def getExecRelativeDir_def upcktimePath_def readTime_def
  After_def time_Now_def randDuration_def writeTime_def Hour_def schedule_path_def next_check_def
  Let_def

lemma update_log_scenarios:
  "update_log world0 = []" "update_log (world_mock body) = []"
  by (simp_all add: world_mock_def world0_def)

subsection \<open>The update orchestrator\<close>

text \<open>
  C1, as the spec states it: when the patch attempt and the full-binary attempt both fail,
  the error of \<^verbatim>\<open>Update\<close> carries both failures. The code assigns the result of the
  second \<^verbatim>\<open>FromUrl\<close> to the same variable \<^verbatim>\<open>err\<close>, so the patch error is gone:
  with the diff server answering "diff server down" and the binary server "bin server down"
  (no recovery error), both URLs are requested and \<^verbatim>\<open>Update\<close> returns the full-binary
  error itself, whose text does not contain the patch error.
\<close>

theorem patch_error_discarded_counterexample:
  "fst (UpdateAvailable env_both_fail world0 updater0) = (True, None)
   \<and> apply_update env_both_fail
        [(\<lparr>PatchType = PATCHTYPE_BSDIFF, Checksum = replicate 32 7\<rparr>,
          ''http://diff.example.com/myapp/1/2/linux-amd64'')]
       = (Some (Err ''diff server down''), None)
   \<and> update_log (fst (snd (Update env_both_fail world0 updater0)))
       = [(\<lparr>PatchType = PATCHTYPE_BSDIFF, Checksum = replicate 32 7\<rparr>,
           ''http://diff.example.com/myapp/1/2/linux-amd64''),
          (\<lparr>PatchType = PATCHTYPE_NONE, Checksum = replicate 32 7\<rparr>,
           ''http://bin.example.com/myapp/2/linux-amd64.gz'')]
   \<and> fst (Update env_both_fail world0 updater0) = Some (Err ''bin server down'')
   \<and> \<not> sublist ''diff server down'' (Error (Err ''bin server down''))"
  by (simp add: scenario_defs fetch_defs Update_def FromUrl_def update_New_def ApplyPatch_def
      VerifyChecksum_def patchURL_def binURL_def fmt_q_def sublist_Cons_right)

text \<open>
  C1, amended: when an update is available, the patch attempt fails and the full-binary
  attempt fails too, \<^verbatim>\<open>Update\<close> returns one non-nil error made from the full-binary
  attempt alone. If that attempt reports a recovery error, the text is
  "update and recovery errors: " followed by the quoted full-binary error and the quoted
  recovery error; otherwise it is the full-binary error itself. The patch error \<open>perr\<close>
  does not occur in it.
\<close>

theorem Update_both_fail:
  assumes "UpdateAvailable e w u = ((True, None), w1, u1)"
    and "FromUrl e w1 \<lparr>PatchType = PATCHTYPE_BSDIFF, Checksum = Sha256 (Info u1)\<rparr> (patchURL e u1)
           = ((Some perr, r0), w2)"
    and "FromUrl e w2 \<lparr>PatchType = PATCHTYPE_NONE, Checksum = Sha256 (Info u1)\<rparr> (binURL e u1)
           = ((Some berr, rec), w3)"
  shows "fst (Update e w u) =
           Some (case rec of
                   None \<Rightarrow> berr
                 | Some r \<Rightarrow> Err (''update and recovery errors: '' @ strconv_Quote e (Error berr)
                                    @ '' '' @ strconv_Quote e (Error r)))"
  using assms(2,3)
  by (simp add: Update_available [OF assms(1)] Let_def fmt_q_def split: option.splits)

theorem Update_both_fail_witness:
  "fst (UpdateAvailable env_recovery_fails world0 updater0) = (True, None)
   \<and> fst (Update env_recovery_fails world0 updater0)
       = Some (Err (''update and recovery errors: '' @ [CHR 0x22] @ ''bin server down''
                    @ [CHR 0x22] @ '' '' @ [CHR 0x22] @ ''rollback failed'' @ [CHR 0x22]))"
proof -
  let ?a = "UpdateAvailable env_recovery_fails world0 updater0"
  let ?up = "\<lparr>PatchType = PATCHTYPE_BSDIFF, Checksum = Sha256 (Info (snd (snd ?a)))\<rparr>"
  let ?up' = "\<lparr>PatchType = PATCHTYPE_NONE, Checksum = Sha256 (Info (snd (snd ?a)))\<rparr>"
  let ?p = "FromUrl env_recovery_fails (fst (snd ?a)) ?up (patchURL env_recovery_fails (snd (snd ?a)))"
  let ?b = "FromUrl env_recovery_fails (snd ?p) ?up' (binURL env_recovery_fails (snd (snd ?a)))"
  have a: "fst ?a = (True, None)"
    by (simp add: env_recovery_fails_def scenario_defs fetch_defs)
  then have h1: "?a = ((True, None), fst (snd ?a), snd (snd ?a))"
    by (metis prod.collapse)
  have "fst ?p = (Some (Err ''diff server down''), None)"
    by (simp add: FromUrl_def Let_def env_recovery_fails_def)
  then have h2: "?p = ((Some (Err ''diff server down''), None), snd ?p)"
    by (metis prod.collapse)
  have "fst ?b = (Some (Err ''bin server down''), Some (Err ''rollback failed''))"
    by (simp add: FromUrl_def Let_def env_recovery_fails_def)
  then have h3: "?b = ((Some (Err ''bin server down''), Some (Err ''rollback failed'')), snd ?b)"
    by (metis prod.collapse)
  show ?thesis
    using Update_both_fail [OF h1 h2 h3] a by (simp add: env_recovery_fails_def env0_def)
qed

text \<open>
  C2: when an update is available and the patch attempt fails, for whatever reason,
  \<^verbatim>\<open>Update\<close> makes exactly two calls of \<^verbatim>\<open>FromUrl\<close>: the patch request, then one
  request in the mode without patch, whose URL is
  \<^verbatim>\<open>BinURL + CmdName + "/" + targetVersion + "/" + plat + ".gz"\<close>, the target version
  being the version of the manifest just fetched.
\<close>

theorem Update_fallback_request:
  assumes "UpdateAvailable e w u = ((True, None), w1, u1)"
    and "fst (fst (FromUrl e w1 \<lparr>PatchType = PATCHTYPE_BSDIFF, Checksum = Sha256 (Info u1)\<rparr>
                    (patchURL e u1))) \<noteq> None"
  shows "update_log (fst (snd (Update e w u)))
           = update_log w @ [(\<lparr>PatchType = PATCHTYPE_BSDIFF, Checksum = Sha256 (Info u1)\<rparr>,
                              patchURL e u1),
                             (\<lparr>PatchType = PATCHTYPE_NONE, Checksum = Sha256 (Info u1)\<rparr>,
                              BinURL u @ CmdName u @ ''/'' @ Version (Info u1) @ ''/'' @ plat e
                                @ ''.gz'')]"
proof -
  note fr = UpdateAvailable_frame [OF assms(1)]
  have "fst (snd (Update e w u))
      = snd (FromUrl e (snd (FromUrl e w1 \<lparr>PatchType = PATCHTYPE_BSDIFF, Checksum = Sha256 (Info u1)\<rparr>
                                (patchURL e u1)))
               \<lparr>PatchType = PATCHTYPE_NONE, Checksum = Sha256 (Info u1)\<rparr> (binURL e u1))"
    using assms(2) by (auto simp add: Update_available [OF assms(1)] Let_def)
  then show ?thesis
    by (simp add: FromUrl_eq binURL_def fr)
qed

theorem Update_fallback_request_witness:
  "fst (UpdateAvailable env_patch_fails world0 updater0) = (True, None)
   \<and> update_log (fst (snd (Update env_patch_fails world0 updater0)))
       = [(\<lparr>PatchType = PATCHTYPE_BSDIFF, Checksum = replicate 32 7\<rparr>,
           ''http://diff.example.com/myapp/1/2/linux-amd64''),
          (\<lparr>PatchType = PATCHTYPE_NONE, Checksum = replicate 32 7\<rparr>,
           ''http://bin.example.com/myapp/2/linux-amd64.gz'')]"
proof -
  let ?a = "UpdateAvailable env_patch_fails world0 updater0"
  have a: "fst ?a = (True, None)"
    by (simp add: scenario_defs fetch_defs)
  then have h1: "?a = ((True, None), fst (snd ?a), snd (snd ?a))"
    by (metis prod.collapse)
  have i: "snd (snd ?a) = updater0\<lparr>Requester := Some 0,
             Info := \<lparr>Version = ''2'', Sha256 = replicate 32 7\<rparr>\<rparr>"
    by (simp add: scenario_defs fetch_defs)
  have h2: "fst (fst (FromUrl env_patch_fails (fst (snd ?a))
                   \<lparr>PatchType = PATCHTYPE_BSDIFF, Checksum = Sha256 (Info (snd (snd ?a)))\<rparr>
                   (patchURL env_patch_fails (snd (snd ?a))))) \<noteq> None"
    by (simp add: FromUrl_def Let_def env_patch_fails_def)
  show ?thesis
    using Update_fallback_request [OF h1 h2] a
    by (simp add: i patchURL_def) (simp add: scenario_defs)
qed

text \<open>
  C3: when an update is available and the patch attempt succeeds (go-update applied the
  patch and the checksum of the manifest matched, so \<^verbatim>\<open>FromUrl\<close> answered a nil error),
  \<^verbatim>\<open>Update\<close> returns nil and its only request is the patch request: the
  full-binary URL is never requested.
\<close>

theorem Update_patch_success:
  assumes "UpdateAvailable e w u = ((True, None), w1, u1)"
    and "fst (fst (FromUrl e w1 \<lparr>PatchType = PATCHTYPE_BSDIFF, Checksum = Sha256 (Info u1)\<rparr>
                    (patchURL e u1))) = None"
  shows "fst (Update e w u) = None
       \<and> update_log (fst (snd (Update e w u)))
           = update_log w @ [(\<lparr>PatchType = PATCHTYPE_BSDIFF, Checksum = Sha256 (Info u1)\<rparr>,
                              DiffURL u @ CmdName u @ ''/'' @ CurrentVersion u @ ''/''
                                @ Version (Info u1) @ ''/'' @ plat e)]"
proof -
  note fr = UpdateAvailable_frame [OF assms(1)]
  have "Update e w u
      = (None, snd (FromUrl e w1 \<lparr>PatchType = PATCHTYPE_BSDIFF, Checksum = Sha256 (Info u1)\<rparr>
                     (patchURL e u1)), u1)"
    using assms(2) by (simp add: Update_available [OF assms(1)] Let_def)
  then show ?thesis
    by (simp add: FromUrl_eq patchURL_def fr)
qed

theorem Update_patch_success_witness:
  "fst (UpdateAvailable env0 world0 updater0) = (True, None)
   \<and> fst (Update env0 world0 updater0) = None
   \<and> update_log (fst (snd (Update env0 world0 updater0)))
       = [(\<lparr>PatchType = PATCHTYPE_BSDIFF, Checksum = replicate 32 7\<rparr>,
           ''http://diff.example.com/myapp/1/2/linux-amd64'')]"
proof -
  let ?a = "UpdateAvailable env0 world0 updater0"
  have a: "fst ?a = (True, None)"
    by (simp add: scenario_defs fetch_defs)
  then have h1: "?a = ((True, None), fst (snd ?a), snd (snd ?a))"
    by (metis prod.collapse)
  have i: "Info (snd (snd ?a)) = \<lparr>Version = ''2'', Sha256 = replicate 32 7\<rparr>"
    by (simp add: scenario_defs fetch_defs)
  have h2: "fst (fst (FromUrl env0 (fst (snd ?a))
                   \<lparr>PatchType = PATCHTYPE_BSDIFF, Checksum = Sha256 (Info (snd (snd ?a)))\<rparr>
                   (patchURL env0 (snd (snd ?a))))) = None"
    by (simp add: FromUrl_def Let_def env0_def)
  show ?thesis
    using Update_patch_success [OF h1 h2] a i by (simp add: scenario_defs)
qed

text \<open>
  C4: when the manifest is fetched (\<^verbatim>\<open>fetchInfo\<close> returns nil, so its hash has the
  digest size) and its version equals the current version, \<^verbatim>\<open>UpdateAvailable\<close>
  returns \<^verbatim>\<open>(false, nil)\<close> and \<^verbatim>\<open>Update\<close> returns nil without any call of
  \<^verbatim>\<open>FromUrl\<close>, that is without a patch or binary fetch.
\<close>

theorem Update_up_to_date:
  assumes "fst (fetchInfo e w u) = None"
    and "Version (Info (snd (snd (fetchInfo e w u)))) = CurrentVersion u"
  shows "fst (UpdateAvailable e w u) = (False, None)
       \<and> fst (Update e w u) = None
       \<and> update_log (fst (snd (Update e w u))) = update_log w"
proof -
  obtain err w1 u1 where f: "fetchInfo e w u = (err, w1, u1)"
    by (cases "fetchInfo e w u") 
  have cv: "CurrentVersion u1 = CurrentVersion u" and ul: "update_log w1 = update_log w"
    using f by (rule fetchInfo_Updater, rule fetchInfo_frame)
  from assms f cv have ua: "UpdateAvailable e w u = ((False, None), w1, u1)"
    by (simp add: UpdateAvailable_def)
  then have "Update e w u = (None, w1, u1)"
    by (simp add: Update_def)
  with ua f ul show ?thesis by simp
qed

theorem Update_up_to_date_witness:
  "fst (fetchInfo env0 (world_mock ''manifest 1'') updater_mock) = None
   \<and> fst (UpdateAvailable env0 (world_mock ''manifest 1'') updater_mock) = (False, None)
   \<and> fst (Update env0 (world_mock ''manifest 1'') updater_mock) = None
   \<and> update_log (fst (snd (Update env0 (world_mock ''manifest 1'') updater_mock))) = []"
proof -
  have h1: "fst (fetchInfo env0 (world_mock ''manifest 1'') updater_mock) = None"
    by (simp add: scenario_defs fetch_defs)
  have h2: "Version (Info (snd (snd (fetchInfo env0 (world_mock ''manifest 1'') updater_mock))))
              = CurrentVersion updater_mock"
    by (simp add: scenario_defs fetch_defs)
  show ?thesis
    using Update_up_to_date [OF h1 h2] h1 by (simp add: update_log_scenarios)
qed

text \<open>
  C5: \<^verbatim>\<open>UpdateAvailable\<close> returns \<^verbatim>\<open>(false, err)\<close> with a non-nil error when the
  manifest fetch or decode fails, \<^verbatim>\<open>(false, nil)\<close> when the manifest version equals the
  current version, and \<^verbatim>\<open>(true, nil)\<close> otherwise. The fetch fails when the requester
  (the default one if the field was nil) answers an error for the manifest URL, which is
  returned, or answers neither error nor stream; the decode fails when the JSON decoder
  answers an error, which is returned, or the decoded hash is not 32 bytes long.
\<close>

theorem UpdateAvailable_result:
  "fst (UpdateAvailable e w u) =
     (let a = (case Requester u of None \<Rightarrow> next_free w | Some a \<Rightarrow> a);
          w0 = (case Requester u of
                  None \<Rightarrow> w\<lparr>heap := (heap w)(next_free w := HTTPRequester),
                            next_free := next_free w + 1\<rparr>
                | Some a \<Rightarrow> w);
          answer = fst (Requester_Fetch e w0 a (ApiURL u @ CmdName u @ ''/'' @ plat e @ ''.json''))
      in case snd answer of
           Some x \<Rightarrow> (False, Some x)
         | None \<Rightarrow>
             (case fst answer of
                None \<Rightarrow> (False, Some (Err ''Fetch was expected to return non-nil ReadCloser''))
              | Some r \<Rightarrow>
                  (case json_Decode e r (Info u) of
                     (Some x, info) \<Rightarrow> (False, Some x)
                   | (None, info) \<Rightarrow>
                       if length (Sha256 info) \<noteq> 32 then (False, Some ErrInvalidHashLength)
                       else if Version info = CurrentVersion u then (False, None)
                       else (True, None))))"
proof -
  obtain err w1 u1 where f: "fetchInfo e w u = (err, w1, u1)"
    by (cases "fetchInfo e w u")
  have cv: "CurrentVersion u1 = CurrentVersion u"
    using f by (rule fetchInfo_Updater)
  have i: "Info u1 =
           (case fst (fetch e w u (ApiURL u @ CmdName u @ ''/'' @ plat e @ ''.json'')) of
              Inl x \<Rightarrow> Info u
            | Inr r \<Rightarrow> snd (json_Decode e r (Info u)))"
    using f by (rule fetchInfo_Info)
  have e: "err =
     (case fst (fetch e w u (ApiURL u @ CmdName u @ ''/'' @ plat e @ ''.json'')) of
        Inl x \<Rightarrow> Some x
      | Inr r \<Rightarrow>
          (case json_Decode e r (Info u) of
             (Some x, info) \<Rightarrow> Some x
           | (None, info) \<Rightarrow>
               if length (Sha256 info) \<noteq> 32 then Some ErrInvalidHashLength else None))"
    using fetchInfo_eq [of e w u] f by simp
  have ua: "fst (UpdateAvailable e w u) =
      (if err \<noteq> None then (False, err)
       else if Version (Info u1) = CurrentVersion u then (False, None) else (True, None))"
    using f cv by (simp add: UpdateAvailable_def)
  show ?thesis
    unfolding ua e i
    by (simp add: fetch_eq Let_def split: option.splits prod.splits)
qed

text \<open>
  C6: when the manifest is fetched and decoded without error and the decoded hash is not
  32 bytes long, \<^verbatim>\<open>fetchInfo\<close> returns \<^verbatim>\<open>ErrInvalidHashLength\<close>;
  \<^verbatim>\<open>Update\<close> returns the same error and makes no call of \<^verbatim>\<open>FromUrl\<close>, so
  neither the patch URL nor the full-binary URL is requested.
\<close>

theorem invalid_hash_length:
  assumes "fetch e w u (ApiURL u @ CmdName u @ ''/'' @ plat e @ ''.json'') = (Inr r, w1, u1)"
    and "json_Decode e r (Info u1) = (None, i)"
    and "length (Sha256 i) \<noteq> 32"
  shows "fst (fetchInfo e w u) = Some ErrInvalidHashLength
       \<and> fst (Update e w u) = Some ErrInvalidHashLength
       \<and> update_log (fst (snd (Update e w u))) = update_log w"
proof -
  from assms have f: "fetchInfo e w u = (Some ErrInvalidHashLength, Close w1 r, u1\<lparr>Info := i\<rparr>)"
    by (simp add: fetchInfo_def sha256_Size_def)
  then have ul: "update_log (Close w1 r) = update_log w"
    by (rule fetchInfo_frame)
  from f have "UpdateAvailable e w u
      = ((False, Some ErrInvalidHashLength), Close w1 r, u1\<lparr>Info := i\<rparr>)"
    by (simp add: UpdateAvailable_def)
  then have "Update e w u = (Some ErrInvalidHashLength, Close w1 r, u1\<lparr>Info := i\<rparr>)"
    by (simp add: Update_def)
  with f ul show ?thesis by simp
qed

theorem invalid_hash_length_witness:
  "fst (fetchInfo env0 (world_mock ''short hash'') updater_mock) = Some ErrInvalidHashLength
   \<and> fst (Update env0 (world_mock ''short hash'') updater_mock) = Some ErrInvalidHashLength
   \<and> update_log (fst (snd (Update env0 (world_mock ''short hash'') updater_mock))) = []"
proof -
  let ?f = "fetch env0 (world_mock ''short hash'') updater_mock
              (ApiURL updater_mock @ CmdName updater_mock @ ''/'' @ plat env0 @ ''.json'')"
  have "fst ?f = Inr ''short hash''"
    by (simp add: scenario_defs fetch_defs)
  then have h1: "?f = (Inr ''short hash'', fst (snd ?f), snd (snd ?f))"
    by (metis prod.collapse)
  have h2: "json_Decode env0 ''short hash'' (Info (snd (snd ?f)))
              = (None, \<lparr>Version = ''2'', Sha256 = replicate 31 7\<rparr>)"
    by (simp add: env0_def)
  have h3: "length (Sha256 \<lparr>Version = ''2'', Sha256 = replicate 31 (7 :: 8 word)\<rparr>) \<noteq> 32"
    by simp
  show ?thesis
    using invalid_hash_length [OF h1 h2 h3] by (simp add: update_log_scenarios)
qed

text \<open>
  C9, as the spec states it: \<^verbatim>\<open>UpdateAvailable\<close> leaves every field of the updater
  unchanged. \<^verbatim>\<open>fetch\<close> replaces a nil \<^verbatim>\<open>Requester\<close> by a new
  \<^verbatim>\<open>HTTPRequester\<close>: the field is nil before the call and not nil after it.
\<close>

theorem Requester_defaulted_counterexample:
  "Requester updater0 = None
   \<and> Requester (snd (snd (UpdateAvailable env0 world0 updater0))) = Some 0
   \<and> Requester (snd (snd (UpdateAvailable env0 world0 updater0))) \<noteq> Requester updater0"
  by (simp add: scenario_defs fetch_defs)

text \<open>
  C9, amended: \<^verbatim>\<open>UpdateAvailable\<close> leaves \<^verbatim>\<open>CurrentVersion\<close>,
  \<^verbatim>\<open>ApiURL\<close>, \<^verbatim>\<open>CmdName\<close>, \<^verbatim>\<open>BinURL\<close>, \<^verbatim>\<open>DiffURL\<close>,
  \<^verbatim>\<open>Dir\<close> and \<^verbatim>\<open>Logger\<close> unchanged and keeps a \<^verbatim>\<open>Requester\<close> that is
  not nil. A nil \<^verbatim>\<open>Requester\<close> becomes a pointer to a newly allocated default
  requester: the store holds an \<^verbatim>\<open>HTTPRequester\<close> at the address that was free, is
  otherwise as before, and the next free address has moved on by one. With a
  \<^verbatim>\<open>Requester\<close> that is not nil nothing is allocated, and only the object it points
  to may change. \<^verbatim>\<open>Info\<close> is what the JSON decoder made of it when the manifest
  stream was obtained, and is unchanged when the fetch failed. Beyond the manifest fetch
  there is no effect: the schedule files, the directories, the calls of \<^verbatim>\<open>FromUrl\<close>,
  the lines printed, the clock and the random source are as before.
\<close>

theorem UpdateAvailable_effects:
  "(case UpdateAvailable e w u of
      (res, w', u') \<Rightarrow>
        CurrentVersion u' = CurrentVersion u \<and> ApiURL u' = ApiURL u \<and> CmdName u' = CmdName u
        \<and> BinURL u' = BinURL u \<and> DiffURL u' = DiffURL u \<and> Dir u' = Dir u
        \<and> Logger u' = Logger u
        \<and> Requester u' = Some (case Requester u of None \<Rightarrow> next_free w | Some a \<Rightarrow> a)
        \<and> (case Requester u of
              None \<Rightarrow> heap w' = (heap w)(next_free w := HTTPRequester)
                        \<and> next_free w' = next_free w + 1
            | Some a \<Rightarrow> heap w' = (heap w)(a := heap w' a) \<and> next_free w' = next_free w)
        \<and> Info u' =
             (case fst (fetch e w u (ApiURL u @ CmdName u @ ''/'' @ plat e @ ''.json'')) of
                Inl x \<Rightarrow> Info u
              | Inr r \<Rightarrow> snd (json_Decode e r (Info u)))
        \<and> files w' = files w \<and> dirs w' = dirs w \<and> update_log w' = update_log w
        \<and> printed w' = printed w \<and> ticks w' = ticks w \<and> draws w' = draws w)"
proof -
  obtain err w1 u1 where f: "fetchInfo e w u = (err, w1, u1)"
    by (cases "fetchInfo e w u")
  have s: "snd (UpdateAvailable e w u) = (w1, u1)"
    using f by (simp add: UpdateAvailable_snd)
  then obtain res where ua: "UpdateAvailable e w u = (res, w1, u1)"
    by (cases "UpdateAvailable e w u") simp
  show ?thesis
    using fetchInfo_Updater [OF f] fetchInfo_frame [OF f] fetchInfo_Info [OF f]
      fetchInfo_heap [OF f]
    by (simp add: ua)
qed

subsection \<open>The schedule gate and the background runner\<close>

text \<open>
  C7, as the spec states it: the schedule file is created or overwritten whenever the
  current version is not "dev". With version 1 and a persisted instant (5000) after the
  clock's reading (1000), \<^verbatim>\<open>wantUpdate\<close> returns false after reading the clock once
  and writes nothing: the file still holds 5000.
\<close>

theorem schedule_not_yet_due_counterexample:
  "CurrentVersion updater0 \<noteq> ''dev''
   \<and> files world_scheduled (schedule_path env0 updater0) = Some 5000
   \<and> wantUpdate env0 world_scheduled updater0 = (False, world_scheduled\<lparr>ticks := 1\<rparr>)
   \<and> files (snd (wantUpdate env0 world_scheduled updater0)) (schedule_path env0 updater0)
       = Some 5000"
  by (simp add: scenario_defs schedule_defs)

text \<open>
  C7, amended: \<^verbatim>\<open>wantUpdate\<close> creates or overwrites the schedule file exactly
  when the current version is not "dev", the persisted instant is not after now, and the
  write succeeds; the file then holds now + 24h + the duration drawn. In every other case
  the schedule files are as before.
\<close>

theorem wantUpdate_files:
  "files (snd (wantUpdate e w u)) =
     (if CurrentVersion u \<noteq> ''dev''
         \<and> \<not> After (readTime w (schedule_path e u)) (clock e (ticks w))
         \<and> write_ok e (schedule_path e u)
      then (files w)(schedule_path e u \<mapsto> next_check e w)
      else files w)"
  by (simp add: wantUpdate_eq)

text \<open>
  C8, as the spec states it: with a version other than "dev" and no persisted instant in
  the future, the first call returns true. Where the state directory takes no write,
  \<^verbatim>\<open>writeTime\<close> answers false and so does the first call; nothing is persisted.
\<close>

theorem schedule_write_fails_counterexample:
  "CurrentVersion updater0 \<noteq> ''dev''
   \<and> \<not> After (readTime world0 (schedule_path env_read_only updater0))
             (clock env_read_only (ticks world0))
   \<and> fst (wantUpdate env_read_only world0 updater0) = False
   \<and> files (snd (wantUpdate env_read_only world0 updater0)) = files world0"
  by (simp add: scenario_defs schedule_defs)

text \<open>
  C8, amended: with a version other than "dev", a persisted instant that is not after
  now, and a write that succeeds, the first call of \<^verbatim>\<open>wantUpdate\<close> returns true and
  persists \<open>next = now + 24h + r\<close> with \<open>0 \<le> r < 24h\<close>, an instant after now; a
  second call whose reading of the clock is before \<open>next\<close> returns false.
\<close>

theorem wantUpdate_twice:
  assumes "CurrentVersion u \<noteq> ''dev''"
    and "\<not> After (readTime w (schedule_path e u)) (clock e (ticks w))"
    and "write_ok e (schedule_path e u)"
    and "clock e (ticks (snd (wantUpdate e w u))) < next_check e w"
  shows "fst (wantUpdate e w u) = True
       \<and> readTime (snd (wantUpdate e w u)) (schedule_path e u) = Some (next_check e w)
       \<and> clock e (ticks w + 1) + 24 * Hour \<le> next_check e w
       \<and> next_check e w < clock e (ticks w + 1) + 48 * Hour
       \<and> clock e (ticks w + 1) < next_check e w
       \<and> fst (wantUpdate e (snd (wantUpdate e w u)) u) = False"
proof -
  have first: "wantUpdate e w u
      = (True, w\<lparr>files := (files w)(schedule_path e u \<mapsto> next_check e w),
                  ticks := ticks w + 2, draws := draws w + 1\<rparr>)"
    using assms(1-3) by (simp add: wantUpdate_eq)
  have b: "clock e (ticks w + 1) + 24 * Hour \<le> next_check e w"
    "next_check e w < clock e (ticks w + 1) + 48 * Hour"
    by (rule next_check_bounds)+
  have fut: "clock e (ticks w + 1) < next_check e w"
    using b(1) by (simp add: Hour_def)
  have due: "clock e (ticks w + 2) < next_check e w"
    using assms(4) by (simp add: first)
  have second: "fst (wantUpdate e (snd (wantUpdate e w u)) u) = False"
    unfolding first using assms(1) due by (simp add: wantUpdate_eq readTime_def After_def)
  show ?thesis
    using b fut second by (simp add: first readTime_def)
qed

theorem wantUpdate_twice_witness:
  "fst (wantUpdate env0 world0 updater0) = True
   \<and> readTime (snd (wantUpdate env0 world0 updater0)) ''/opt/app/update/cktime''
       = Some 86400000013346
   \<and> fst (wantUpdate env0 (snd (wantUpdate env0 world0 updater0)) updater0) = False"
proof -
  have h1: "CurrentVersion updater0 \<noteq> ''dev''"
    by (simp add: updater0_def)
  have h2: "\<not> After (readTime world0 (schedule_path env0 updater0)) (clock env0 (ticks world0))"
    by (simp add: scenario_defs schedule_defs)
  have h3: "write_ok env0 (schedule_path env0 updater0)"
    by (simp add: env0_def)
  have h4: "clock env0 (ticks (snd (wantUpdate env0 world0 updater0))) < next_check env0 world0"
    by (simp add: scenario_defs schedule_defs)
  have p: "schedule_path env0 updater0 = ''/opt/app/update/cktime''"
    by (simp add: scenario_defs schedule_defs)
  have n: "next_check env0 world0 = 86400000013346"
    by (simp add: scenario_defs schedule_defs)
  show ?thesis
    using wantUpdate_twice [OF h1 h2 h3 h4] by (simp add: p n)
qed

text \<open>
  C10: when the schedule gate decides that a check is due, \<^verbatim>\<open>BackgroundRun\<close> calls
  \<^verbatim>\<open>Println\<close> on \<^verbatim>\<open>u.Logger\<close> without a nil check: it panics exactly when the
  \<^verbatim>\<open>Logger\<close> field is the nil interface.
\<close>

theorem BackgroundRun_nil_Logger:
  assumes "fst (wantUpdate e (os_MkdirAll w (getExecRelativeDir e (Dir u))) u)"
  shows "fst (BackgroundRun e w u) = Panics \<longleftrightarrow> Logger u = None"
proof -
  obtain w1 where "wantUpdate e (os_MkdirAll w (getExecRelativeDir e (Dir u))) u = (True, w1)"
    using assms by (cases "wantUpdate e (os_MkdirAll w (getExecRelativeDir e (Dir u))) u") simp
  then show ?thesis
    by (simp add: BackgroundRun_def Let_def split: prod.splits option.splits)
qed

theorem BackgroundRun_nil_Logger_witness:
  "Logger updater0 = None
   \<and> fst (wantUpdate env0 (os_MkdirAll world0 (getExecRelativeDir env0 (Dir updater0))) updater0)
   \<and> fst (BackgroundRun env0 world0 updater0) = Panics"
proof -
  have h: "fst (wantUpdate env0 (os_MkdirAll world0 (getExecRelativeDir env0 (Dir updater0)))
                 updater0)"
    by (simp add: scenario_defs schedule_defs os_MkdirAll_def)
  have l: "Logger updater0 = None"
    by (simp add: updater0_def)
  show ?thesis
    using BackgroundRun_nil_Logger [OF h] h l by simp
qed

end
